theory Spec2Isabelle
  imports Complex_Main
begin

text \<open>
  A model of \<^verbatim>\<open>crypto_pipeline_demo.py\<close>: the class \<^verbatim>\<open>CryptoPipeline\<close> that fetches
  cryptocurrency listings, normalises them into a table, accumulates the tables of
  successive polls, aggregates trends, summarises and persists the dataset. Every method
  is a function of what it reads (the dataset, the response of the request, the random
  draws, the clock, the files) and returns what it writes; a raised exception is the left
  summand of the result. The plotting methods and \<^verbatim>\<open>main\<close> are not modelled.
\<close>

section \<open>Values exchanged with the outside world\<close>

text \<open>
  A parsed JSON body, as Python's \<^verbatim>\<open>response.json()\<close> returns it: \<^verbatim>\<open>None\<close>, a bool, an int,
  a float, a str, a list or a dict. A dict is kept as the list of its items in insertion
  order. Floats are idealised as real numbers: no claim below depends on rounding.
\<close>

datatype json =
    JNull
  | JBool bool
  | JInt int
  | JFloat real
  | JStr string
  | JArr "json list"
  | JObj "(string \<times> json) list"

text \<open>Python exceptions that the modelled code can raise.\<close>

datatype py_error =
    KeyError string
  | TypeError
  | ValueError
  | AttributeError
  | NotImplementedError
  | LibraryError string

text \<open>Python truthiness (\<^verbatim>\<open>if raw_data:\<close>, \<^verbatim>\<open>not data\<close>).\<close>

fun truthy :: "json \<Rightarrow> bool" where
  "truthy JNull = False"
| "truthy (JBool b) = b"
| "truthy (JInt i) = (i \<noteq> 0)"
| "truthy (JFloat x) = (x \<noteq> 0)"
| "truthy (JStr s) = (s \<noteq> [])"
| "truthy (JArr xs) = (xs \<noteq> [])"
| "truthy (JObj kvs) = (kvs \<noteq> [])"

text \<open>Python's \<^verbatim>\<open>str.startswith\<close> and the substring test \<^verbatim>\<open>p in s\<close> on strings.\<close>

fun starts_with :: "string \<Rightarrow> string \<Rightarrow> bool" where
  "starts_with [] s = True"
| "starts_with (p # ps) [] = False"
| "starts_with (p # ps) (c # cs) = (p = c \<and> starts_with ps cs)"

fun str_contains :: "string \<Rightarrow> string \<Rightarrow> bool" where
  "str_contains p [] = (p = [])"
| "str_contains p (c # cs) = (starts_with p (c # cs) \<or> str_contains p cs)"

text \<open>
  \<^verbatim>\<open>key in data\<close>: a key test on a dict, an element test on a list, a substring test on a
  str, and a \<^verbatim>\<open>TypeError\<close> on \<^verbatim>\<open>None\<close>, a bool or a number.
\<close>

fun py_in :: "string \<Rightarrow> json \<Rightarrow> py_error + bool" where
  "py_in k (JObj kvs) = Inr (map_of kvs k \<noteq> None)"
| "py_in k (JArr xs) = Inr (JStr k \<in> set xs)"
| "py_in k (JStr s) = Inr (str_contains k s)"
| "py_in k j = Inl TypeError"

text \<open>
  \<^verbatim>\<open>data[key]\<close> with a str key: a lookup on a dict (\<^verbatim>\<open>KeyError\<close> when absent), a
  \<^verbatim>\<open>TypeError\<close> on every other value.
\<close>

fun py_getitem :: "json \<Rightarrow> string \<Rightarrow> py_error + json" where
  "py_getitem (JObj kvs) k = (case map_of kvs k of None \<Rightarrow> Inl (KeyError k) | Some v \<Rightarrow> Inr v)"
| "py_getitem j k = Inl TypeError"

section \<open>DataFetcher\<close>

text \<open>
  What \<^verbatim>\<open>self.session.get\<close> does in one call: it raises a \<^verbatim>\<open>RequestException\<close> (no
  connection, timeout), or returns a response with a status code and a body. The body is
  \<open>None\<close> when it is not valid JSON, so that \<^verbatim>\<open>response.json()\<close> raises, and the parsed value
  otherwise.
\<close>

datatype http_result =
    RequestFailed
  | Response nat "json option"

text \<open>
  \<^verbatim>\<open>np.random.normal(loc, scale)\<close>: the generator's state is the sequence \<open>z\<close> of standard
  normal draws that one invocation of the fallback generator consumes; the \<open>i\<close>-th call
  returns \<open>loc + scale * z i\<close>.
\<close>

definition np_random_normal :: "(nat \<Rightarrow> real) \<Rightarrow> nat \<Rightarrow> real \<Rightarrow> real \<Rightarrow> real" where
  "np_random_normal z i loc scale = loc + scale * z i"

definition get_mock_data :: "(nat \<Rightarrow> real) \<Rightarrow> json" where
  "get_mock_data z = JObj
    [(''data'', JArr
      [JObj
         [(''id'', JInt 1),
          (''name'', JStr ''Bitcoin''),
          (''symbol'', JStr ''BTC''),
          (''slug'', JStr ''bitcoin''),
          (''cmc_rank'', JInt 1),
          (''quote'', JObj
            [(''USD'', JObj
              [(''price'', JFloat (45000.50 + np_random_normal z 0 0 1000)),
               (''percent_change_1h'', JFloat (np_random_normal z 1 0 2)),
               (''percent_change_24h'', JFloat (np_random_normal z 2 0 5)),
               (''percent_change_7d'', JFloat (np_random_normal z 3 0 10)),
               (''percent_change_30d'', JFloat (np_random_normal z 4 0 15)),
               (''percent_change_60d'', JFloat (np_random_normal z 5 0 20)),
               (''percent_change_90d'', JFloat (np_random_normal z 6 0 25)),
               (''market_cap'', JInt 800000000000),
               (''volume_24h'', JInt 25000000000)])])],
       JObj
         [(''id'', JInt 2),
          (''name'', JStr ''Ethereum''),
          (''symbol'', JStr ''ETH''),
          (''slug'', JStr ''ethereum''),
          (''cmc_rank'', JInt 2),
          (''quote'', JObj
            [(''USD'', JObj
              [(''price'', JFloat (3200.75 + np_random_normal z 7 0 200)),
               (''percent_change_1h'', JFloat (np_random_normal z 8 0 2)),
               (''percent_change_24h'', JFloat (np_random_normal z 9 0 5)),
               (''percent_change_7d'', JFloat (np_random_normal z 10 0 10)),
               (''percent_change_30d'', JFloat (np_random_normal z 11 0 15)),
               (''percent_change_60d'', JFloat (np_random_normal z 12 0 20)),
               (''percent_change_90d'', JFloat (np_random_normal z 13 0 25)),
               (''market_cap'', JInt 400000000000),
               (''volume_24h'', JInt 15000000000)])])],
       JObj
         [(''id'', JInt 3),
          (''name'', JStr ''Tether''),
          (''symbol'', JStr ''USDT''),
          (''slug'', JStr ''tether''),
          (''cmc_rank'', JInt 3),
          (''quote'', JObj
            [(''USD'', JObj
              [(''price'', JFloat (1.00 + np_random_normal z 14 0 0.01)),
               (''percent_change_1h'', JFloat (np_random_normal z 15 0 0.1)),
               (''percent_change_24h'', JFloat (np_random_normal z 16 0 0.2)),
               (''percent_change_7d'', JFloat (np_random_normal z 17 0 0.3)),
               (''percent_change_30d'', JFloat (np_random_normal z 18 0 0.5)),
               (''percent_change_60d'', JFloat (np_random_normal z 19 0 0.7)),
               (''percent_change_90d'', JFloat (np_random_normal z 20 0 1.0)),
               (''market_cap'', JInt 90000000000),
               (''volume_24h'', JInt 50000000000)])])]])]"

text \<open>
  \<^verbatim>\<open>fetch_crypto_data\<close>: one request. \<^verbatim>\<open>raise_for_status\<close> raises an \<^verbatim>\<open>HTTPError\<close> (a
  \<^verbatim>\<open>RequestException\<close>) for a status from 400 to 599; both \<^verbatim>\<open>except\<close> clauses return the mock
  data; a body that parses is returned as it is.
\<close>

definition fetch_crypto_data :: "http_result \<Rightarrow> (nat \<Rightarrow> real) \<Rightarrow> json" where
  "fetch_crypto_data r z =
     (case r of
        RequestFailed \<Rightarrow> get_mock_data z
      | Response status body \<Rightarrow>
          if 400 \<le> status \<and> status < 600 then get_mock_data z
          else (case body of None \<Rightarrow> get_mock_data z | Some data \<Rightarrow> data))"

section \<open>Tables\<close>

text \<open>
  A cell of a pandas \<^verbatim>\<open>DataFrame\<close>: a missing value (\<^verbatim>\<open>NaN\<close>, \<^verbatim>\<open>None\<close>, \<^verbatim>\<open>NaT\<close>), a bool, an int,
  a float, a str, a \<^verbatim>\<open>Timestamp\<close> (its nanoseconds since the epoch) or any other Python
  object (a list taken from the JSON body).
\<close>

datatype cell =
    CNaN
  | CBool bool
  | CInt int
  | CFloat real
  | CStr string
  | CTime int
  | CObj json

text \<open>
  A \<^verbatim>\<open>DataFrame\<close>: its column labels in order and its rows in order, each row holding one
  cell per column. The row index is left implicit: every frame below carries the default
  index \<open>0, 1, 2, ...\<close>. \<^verbatim>\<open>pd.DataFrame()\<close> has no column and no row.
\<close>

record DataFrame =
  columns :: "string list"
  rows :: "cell list list"

definition empty_frame :: DataFrame where
  "empty_frame = \<lparr>columns = [], rows = []\<rparr>"

text \<open>\<^verbatim>\<open>df.empty\<close>: some axis has length 0. \<^verbatim>\<open>len(df)\<close>: the number of rows.\<close>

definition is_empty :: "DataFrame \<Rightarrow> bool" where
  "is_empty d = (columns d = [] \<or> rows d = [])"

definition len :: "DataFrame \<Rightarrow> nat" where
  "len d = length (rows d)"

text \<open>The cell of a row under a column label; a label the row does not have reads as missing.\<close>

definition row_get :: "string list \<Rightarrow> cell list \<Rightarrow> string \<Rightarrow> cell" where
  "row_get cols r c = (case map_of (zip cols r) c of None \<Rightarrow> CNaN | Some v \<Rightarrow> v)"

text \<open>\<^verbatim>\<open>df[c]\<close> as the list of its values, for a label among the columns.\<close>

definition col_values :: "DataFrame \<Rightarrow> string \<Rightarrow> cell list" where
  "col_values d c = map (\<lambda>r. row_get (columns d) r c) (rows d)"

text \<open>The frames the pipeline builds: labels are distinct and every row has one cell per label.\<close>

definition wf_frame :: "DataFrame \<Rightarrow> bool" where
  "wf_frame d = (distinct (columns d) \<and> list_all (\<lambda>r. length r = length (columns d)) (rows d))"

text \<open>\<^verbatim>\<open>df[c] = v\<close> with a scalar: an existing column is overwritten in place, a new one is added last.\<close>

definition set_column_scalar :: "DataFrame \<Rightarrow> string \<Rightarrow> cell \<Rightarrow> DataFrame" where
  "set_column_scalar d c v =
     (if c \<in> set (columns d)
      then d\<lparr>rows := map (\<lambda>r. map (\<lambda>(k, x). if k = c then v else x) (zip (columns d) r)) (rows d)\<rparr>
      else \<lparr>columns = columns d @ [c], rows = map (\<lambda>r. r @ [v]) (rows d)\<rparr>)"

text \<open>\<^verbatim>\<open>df[c] = vs\<close> with one value per row.\<close>

definition set_column_values :: "DataFrame \<Rightarrow> string \<Rightarrow> cell list \<Rightarrow> DataFrame" where
  "set_column_values d c vs =
     (if c \<in> set (columns d)
      then d\<lparr>rows := map (\<lambda>(r, v). map (\<lambda>(k, x). if k = c then v else x) (zip (columns d) r))
                          (zip (rows d) vs)\<rparr>
      else \<lparr>columns = columns d @ [c], rows = map (\<lambda>(r, v). r @ [v]) (zip (rows d) vs)\<rparr>)"

text \<open>
  \<^verbatim>\<open>pd.concat([a, b], ignore_index=True)\<close>: the labels of \<open>a\<close>, then those of \<open>b\<close> that \<open>a\<close>
  lacks; the rows of \<open>a\<close>, then the rows of \<open>b\<close>, each laid out under the joint labels with
  a missing value where its frame has no such column.
\<close>

definition reindex :: "string list \<Rightarrow> string list \<Rightarrow> cell list \<Rightarrow> cell list" where
  "reindex old new r = map (row_get old r) new"

definition pd_concat :: "DataFrame \<Rightarrow> DataFrame \<Rightarrow> DataFrame" where
  "pd_concat a b =
     (let cols = columns a @ filter (\<lambda>c. c \<notin> set (columns a)) (columns b)
      in \<lparr>columns = cols,
          rows = map (reindex (columns a) cols) (rows a) @ map (reindex (columns b) cols) (rows b)\<rparr>)"

section \<open>RecordNormalizer\<close>

text \<open>A Python dict under assignment \<^verbatim>\<open>d[k] = v\<close>: a present key keeps its place, a new one goes last.\<close>

fun dict_set :: "(string \<times> 'v) list \<Rightarrow> string \<Rightarrow> 'v \<Rightarrow> (string \<times> 'v) list" where
  "dict_set [] k v = [(k, v)]"
| "dict_set ((k', v') # d) k v = (if k' = k then (k, v) # d else (k', v') # dict_set d k v)"

definition dict_update :: "(string \<times> 'v) list \<Rightarrow> (string \<times> 'v) list \<Rightarrow> (string \<times> 'v) list" where
  "dict_update d e = fold (\<lambda>(k, v) acc. dict_set acc k v) e d"

fun is_dict :: "json \<Rightarrow> bool" where
  "is_dict (JObj kvs) = True"
| "is_dict j = False"

text \<open>
  The flattening that \<^verbatim>\<open>pd.json_normalize\<close> applies to one record: nested dicts are walked
  depth first, and a leaf is stored under the keys on its path joined by a dot.
\<close>

definition new_key :: "string \<Rightarrow> string \<Rightarrow> string" where
  "new_key key_string k = (if key_string = [] then k else key_string @ ''.'' @ k)"

fun normalise_json :: "json \<Rightarrow> string \<Rightarrow> (string \<times> json) list \<Rightarrow> (string \<times> json) list"
  and normalise_items :: "(string \<times> json) list \<Rightarrow> string \<Rightarrow> (string \<times> json) list \<Rightarrow> (string \<times> json) list"
where
  "normalise_json (JObj kvs) key_string nd = normalise_items kvs key_string nd"
| "normalise_json JNull key_string nd = dict_set nd key_string JNull"
| "normalise_json (JBool b) key_string nd = dict_set nd key_string (JBool b)"
| "normalise_json (JInt i) key_string nd = dict_set nd key_string (JInt i)"
| "normalise_json (JFloat x) key_string nd = dict_set nd key_string (JFloat x)"
| "normalise_json (JStr s) key_string nd = dict_set nd key_string (JStr s)"
| "normalise_json (JArr xs) key_string nd = dict_set nd key_string (JArr xs)"
| "normalise_items [] key_string nd = nd"
| "normalise_items ((k, v) # kvs) key_string nd =
     normalise_items kvs key_string (normalise_json v (new_key key_string k) nd)"

text \<open>The top-level leaves keep their places; the flattened nested dicts follow them.\<close>

definition normalise_json_ordered :: "(string \<times> json) list \<Rightarrow> (string \<times> json) list" where
  "normalise_json_ordered kvs =
     dict_update (dict_update [] (filter (\<lambda>(k, v). \<not> is_dict v) kvs))
                 (normalise_items (filter (\<lambda>(k, v). is_dict v) kvs) [] [])"

fun cell_of_json :: "json \<Rightarrow> cell" where
  "cell_of_json JNull = CNaN"
| "cell_of_json (JBool b) = CBool b"
| "cell_of_json (JInt i) = CInt i"
| "cell_of_json (JFloat x) = CFloat x"
| "cell_of_json (JStr s) = CStr s"
| "cell_of_json j = CObj j"

text \<open>
  \<^verbatim>\<open>pd.DataFrame(records)\<close> for a list of flat dicts: the labels are the keys in the order
  they are first seen, and a record without a key has a missing value there.
\<close>

fun add_keys :: "string list \<Rightarrow> string list \<Rightarrow> string list" where
  "add_keys cols [] = cols"
| "add_keys cols (k # ks) = add_keys (if k \<in> set cols then cols else cols @ [k]) ks"

definition frame_of_records :: "(string \<times> json) list list \<Rightarrow> DataFrame" where
  "frame_of_records recs =
     (let cols = fold (\<lambda>r cs. add_keys cs (map fst r)) recs []
      in \<lparr>columns = cols,
          rows = map (\<lambda>r. map (\<lambda>c. case map_of r c of None \<Rightarrow> CNaN | Some v \<Rightarrow> cell_of_json v) cols) recs\<rparr>)"

fun dict_items :: "json \<Rightarrow> (string \<times> json) list" where
  "dict_items (JObj kvs) = kvs"
| "dict_items j = []"

text \<open>
  \<^verbatim>\<open>pd.json_normalize(data)\<close> with its default arguments: an empty list gives
  \<^verbatim>\<open>pd.DataFrame()\<close>, a dict is one record, a list of dicts gives one row per dict, and a
  value that is not iterable (or a str) raises \<^verbatim>\<open>NotImplementedError\<close>. A list with an entry
  that is not a dict is outside what is modelled here and is reported as a library error.
\<close>

fun json_normalize :: "json \<Rightarrow> py_error + DataFrame" where
  "json_normalize (JArr es) =
     (if es = [] then Inr empty_frame
      else if list_all is_dict es
      then Inr (frame_of_records (map (\<lambda>e. normalise_json_ordered (dict_items e)) es))
      else Inl (LibraryError ''json_normalize: entry is not a dict''))"
| "json_normalize (JObj kvs) = Inr (frame_of_records [normalise_json_ordered kvs])"
| "json_normalize j = Inl NotImplementedError"

text \<open>
  \<^verbatim>\<open>process_data\<close>; \<open>now\<close> is what \<^verbatim>\<open>pd.to_datetime('now')\<close> reads from the clock. The guard
  \<^verbatim>\<open>not data or 'data' not in data\<close> evaluates its second operand only for a truthy value.
\<close>

definition process_data :: "int \<Rightarrow> json \<Rightarrow> py_error + DataFrame" where
  "process_data now data =
     (if \<not> truthy data then Inr empty_frame
      else case py_in ''data'' data of
             Inl e \<Rightarrow> Inl e
           | Inr present \<Rightarrow>
               if \<not> present then Inr empty_frame
               else case py_getitem data ''data'' of
                      Inl e \<Rightarrow> Inl e
                    | Inr d \<Rightarrow>
                        (case json_normalize d of
                           Inl e \<Rightarrow> Inl e
                         | Inr df_new \<Rightarrow> Inr (set_column_scalar df_new ''timestamp'' (CTime now))))"

section \<open>Accumulator\<close>

definition append_data :: "DataFrame \<Rightarrow> DataFrame \<Rightarrow> DataFrame" where
  "append_data self_df new_data =
     (if is_empty new_data then self_df
      else if is_empty self_df then new_data
      else pd_concat self_df new_data)"

text \<open>
  The lines the pipeline prints, one constructor per \<^verbatim>\<open>print\<close> call of the methods below
  (the lines printed inside \<^verbatim>\<open>fetch_crypto_data\<close> are not recorded).
\<close>

datatype msg =
    Starting nat
  | Iteration nat nat
  | Collected nat
  | TotalSize nat
  | FailedToCollect
  | Sleeping nat
  | Completed
  | NoDataToSave
  | DataSaved string
  | DataLoaded string
  | DatasetShape nat nat
  | FileNotFound string
  | NoDataForAnalysis
  | NoTrendData

text \<open>The pipeline object: its dataset \<^verbatim>\<open>self.df\<close>, and the lines printed so far.\<close>

record pipeline =
  df :: DataFrame
  printed :: "msg list"

definition init_pipeline :: pipeline where
  "init_pipeline = \<lparr>df = empty_frame, printed = []\<rparr>"

definition say :: "msg \<Rightarrow> pipeline \<Rightarrow> pipeline" where
  "say m p = p\<lparr>printed := printed p @ [m]\<rparr>"

text \<open>
  What one iteration of the collection loop takes from outside: the outcome of the request,
  the random draws of the fallback generator, and the clock.
\<close>

record step =
  response :: http_result
  noise :: "nat \<Rightarrow> real"
  clock :: int

text \<open>The body of the loop of \<^verbatim>\<open>run_data_collection\<close> for index \<open>i\<close>.\<close>

definition collect_once :: "step \<Rightarrow> nat \<Rightarrow> nat \<Rightarrow> nat \<Rightarrow> pipeline \<Rightarrow> py_error + pipeline" where
  "collect_once w i iterations sleep_interval p0 =
     (let p1 = say (Iteration (i + 1) iterations) p0;
          raw_data = fetch_crypto_data (response w) (noise w);
          after = (\<lambda>p. if int i < int iterations - 1 then say (Sleeping sleep_interval) p else p)
      in if truthy raw_data
         then (case process_data (clock w) raw_data of
                 Inl e \<Rightarrow> Inl e
               | Inr processed_data \<Rightarrow>
                   (let p2 = p1\<lparr>df := append_data (df p1) processed_data\<rparr>
                    in Inr (after (say (TotalSize (len (df p2))) (say (Collected (len processed_data)) p2)))))
         else Inr (after (say FailedToCollect p1)))"

fun collect_loop :: "(nat \<Rightarrow> step) \<Rightarrow> nat \<Rightarrow> nat \<Rightarrow> nat list \<Rightarrow> pipeline \<Rightarrow> py_error + pipeline" where
  "collect_loop world iterations sleep_interval [] p = Inr p"
| "collect_loop world iterations sleep_interval (i # is) p =
     (case collect_once (world i) i iterations sleep_interval p of
        Inl e \<Rightarrow> Inl e
      | Inr p' \<Rightarrow> collect_loop world iterations sleep_interval is p')"

definition run_data_collection :: "(nat \<Rightarrow> step) \<Rightarrow> nat \<Rightarrow> nat \<Rightarrow> pipeline \<Rightarrow> py_error + pipeline" where
  "run_data_collection world iterations sleep_interval p =
     (case collect_loop world iterations sleep_interval [0..<iterations] (say (Starting iterations) p) of
        Inl e \<Rightarrow> Inl e
      | Inr p' \<Rightarrow> Inr (say Completed p'))"

section \<open>PersistenceAdapter\<close>

text \<open>
  The library calls of the persistence methods, taken as they are: \<^verbatim>\<open>df.to_csv(path,
  index=False)\<close> turns a frame into the contents of a file, \<^verbatim>\<open>pd.read_csv(path)\<close> parses the
  contents of a file into a frame or raises, and \<^verbatim>\<open>pd.to_datetime(series)\<close> parses the
  values of a column into timestamps or raises.
\<close>

record 'f csv_lib =
  to_csv :: "DataFrame \<Rightarrow> 'f"
  read_csv :: "'f \<Rightarrow> py_error + DataFrame"
  to_datetime :: "cell list \<Rightarrow> py_error + cell list"


text \<open>
  \<^verbatim>\<open>load_from_csv\<close>: when the file exists the dataset is replaced by what is read, and its
  \<^verbatim>\<open>timestamp\<close> column (a \<^verbatim>\<open>KeyError\<close> when there is none) by the parsed timestamps.
\<close>

definition load_from_csv ::
  "'f csv_lib \<Rightarrow> string \<Rightarrow> (string \<rightharpoonup> 'f) \<Rightarrow> pipeline \<Rightarrow> py_error + pipeline" where
  "load_from_csv lib filename files p =
     (case files filename of
        None \<Rightarrow> Inr (say (FileNotFound filename) p)
      | Some f \<Rightarrow>
          (case read_csv lib f of
             Inl e \<Rightarrow> Inl e
           | Inr d \<Rightarrow>
               if ''timestamp'' \<notin> set (columns d) then Inl (KeyError ''timestamp'')
               else (case to_datetime lib (col_values d ''timestamp'') of
                       Inl e \<Rightarrow> Inl e
                     | Inr ts \<Rightarrow>
                         if length ts \<noteq> len d then Inl ValueError
                         else (let d' = set_column_values d ''timestamp'' ts
                               in Inr (say (DatasetShape (len d') (length (columns d')))
                                         (say (DataLoaded filename) (p\<lparr>df := d'\<rparr>)))))))"

section \<open>TrendAggregator\<close>

text \<open>The distinct values of a list in the order in which they are first seen.\<close>

fun first_seen :: "'a list \<Rightarrow> 'a list \<Rightarrow> 'a list" where
  "first_seen seen [] = []"
| "first_seen seen (x # xs) =
     (if x \<in> set seen then first_seen seen xs else x # first_seen (x # seen) xs)"

definition uniques :: "'a list \<Rightarrow> 'a list" where
  "uniques xs = first_seen [] xs"











section \<open>SummaryReporter\<close>

text \<open>
  \<^verbatim>\<open>Series.nunique()\<close> and \<^verbatim>\<open>Series.value_counts().head().to_dict()\<close>: missing values are
  not counted; the counts are in descending order, values with the same count in
  first-seen order; \<^verbatim>\<open>head()\<close> keeps five.
\<close>

definition nunique :: "cell list \<Rightarrow> nat" where
  "nunique vs = length (uniques (filter (\<lambda>v. v \<noteq> CNaN) vs))"

definition value_counts :: "cell list \<Rightarrow> (cell \<times> nat) list" where
  "value_counts vs =
     (let present = filter (\<lambda>v. v \<noteq> CNaN) vs
      in sort_key (\<lambda>kn. - int (snd kn)) (map (\<lambda>k. (k, count_list present k)) (uniques present)))"

text \<open>
  \<^verbatim>\<open>series.min().strftime(...)\<close> and \<^verbatim>\<open>series.max().strftime(...)\<close> on the timestamp column:
  \<open>pick\<close> chooses among the timestamps present and \<open>fmt\<close> is the library's formatting of a
  timestamp with \<^verbatim>\<open>'%Y-%m-%d %H:%M:%S'\<close>. A column with nothing in it has no timestamp to
  format, and a value that is not a timestamp has no \<^verbatim>\<open>strftime\<close>.
\<close>

fun time_of :: "cell \<Rightarrow> int option" where
  "time_of (CTime t) = Some t"
| "time_of c = None"

definition extreme_strftime ::
  "(int list \<Rightarrow> int) \<Rightarrow> (int \<Rightarrow> string) \<Rightarrow> cell list \<Rightarrow> py_error + string" where
  "extreme_strftime pick fmt vs =
     (let present = filter (\<lambda>v. v \<noteq> CNaN) vs
      in if present = [] then Inl ValueError
         else if \<not> list_all (\<lambda>v. time_of v \<noteq> None) present then Inl AttributeError
         else Inr (fmt (pick (map (\<lambda>v. the (time_of v)) present))))"

definition min_list_int :: "int list \<Rightarrow> int" where
  "min_list_int ts = fold min (tl ts) (hd ts)"

definition max_list_int :: "int list \<Rightarrow> int" where
  "max_list_int ts = fold max (tl ts) (hd ts)"

text \<open>The dict that \<^verbatim>\<open>get_summary_stats\<close> returns: the message, or the statistics.\<close>

record stats =
  total_records :: nat
  unique_cryptocurrencies :: nat
  period_start :: string
  period_end :: string
  top_cryptocurrencies :: "(cell \<times> nat) list"

datatype summary =
    Message string
  | Statistics stats

definition get_summary_stats :: "(int \<Rightarrow> string) \<Rightarrow> DataFrame \<Rightarrow> py_error + summary" where
  "get_summary_stats fmt d =
     (if is_empty d then Inr (Message ''No data available'')
      else (let has_name = ''name'' \<in> set (columns d);
                has_time = ''timestamp'' \<in> set (columns d)
            in case (if has_time then extreme_strftime min_list_int fmt (col_values d ''timestamp'')
                     else Inr ''N/A'') of
                 Inl e \<Rightarrow> Inl e
               | Inr start \<Rightarrow>
                   (case (if has_time then extreme_strftime max_list_int fmt (col_values d ''timestamp'')
                          else Inr ''N/A'') of
                      Inl e \<Rightarrow> Inl e
                    | Inr end_ \<Rightarrow>
                        Inr (Statistics
                          \<lparr>total_records = len d,
                           unique_cryptocurrencies = (if has_name then nunique (col_values d ''name'') else 0),
                           period_start = start,
                           period_end = end_,
                           top_cryptocurrencies =
                             (if has_name then take 5 (value_counts (col_values d ''name'')) else [])\<rparr>))))"

section \<open>Notions used to state the properties\<close>

text \<open>
  The request fails: the transport raises, the status is an error status, or the body does
  not parse.
\<close>

fun request_fails :: "http_result \<Rightarrow> bool" where
  "request_fails RequestFailed = True"
| "request_fails (Response status body) = ((400 \<le> status \<and> status < 600) \<or> body = None)"

text \<open>Nested lookup \<^verbatim>\<open>j[k1][k2]...\<close>.\<close>

fun json_path :: "json \<Rightarrow> string list \<Rightarrow> py_error + json" where
  "json_path j [] = Inr j"
| "json_path j (k # ks) = (case py_getitem j k of Inl e \<Rightarrow> Inl e | Inr v \<Rightarrow> json_path v ks)"

text \<open>The records of the fallback dataset, and the fields of a record that are literals in the source.\<close>

definition mock_entries :: "(nat \<Rightarrow> real) \<Rightarrow> json list" where
  "mock_entries z = (case py_getitem (get_mock_data z) ''data'' of Inr (JArr es) \<Rightarrow> es | _ \<Rightarrow> [])"

definition fixed_paths :: "string list list" where
  "fixed_paths = [[''id''], [''name''], [''symbol''], [''slug''], [''cmc_rank''],
     [''quote'', ''USD'', ''market_cap''], [''quote'', ''USD'', ''volume_24h'']]"

definition fixed_fields :: "json \<Rightarrow> (py_error + json) list" where
  "fixed_fields e = map (json_path e) fixed_paths"





text \<open>The timestamps of a dataset, in row order.\<close>

definition timestamps :: "DataFrame \<Rightarrow> int list" where
  "timestamps d = List.map_filter time_of (col_values d ''timestamp'')"



text \<open>
  The datasets the pipeline holds between iterations: well formed, and without rows as long
  as there is no column.
\<close>

definition proper :: "DataFrame \<Rightarrow> bool" where
  "proper d = (wf_frame d \<and> (columns d = [] \<longrightarrow> rows d = []))"

text \<open>
  The fetch of an iteration succeeds with the asset entries \<open>es\<close>: it returns a dict whose
  \<^verbatim>\<open>data\<close> list is \<open>es\<close>, every entry a dict (a live body, or the fallback).
\<close>

definition fetched_entries :: "step \<Rightarrow> json list \<Rightarrow> bool" where
  "fetched_entries w es =
     (case fetch_crypto_data (response w) (noise w) of
        JObj kvs \<Rightarrow> map_of kvs ''data'' = Some (JArr es) \<and> list_all is_dict es
      | _ \<Rightarrow> False)"

text \<open>
  A run in which the second request succeeds and the others fail, the clock advancing by
  10 between iterations; for the examples.
\<close>

definition demo_world :: "nat \<Rightarrow> step" where
  "demo_world i = \<lparr>response = (if i = 1 then Response 200 (Some (get_mock_data (\<lambda>k. 1))) else RequestFailed),
                    noise = (\<lambda>k. 0), clock = 10 * int i\<rparr>"












section \<open>DataFetcher: the fallback\<close>

lemma fetch_fails_mock: "request_fails r \<Longrightarrow> fetch_crypto_data r z = get_mock_data z"
  by (cases r) (auto simp: fetch_crypto_data_def split: option.splits)

lemma mock_truthy: "truthy (get_mock_data z)"
  by (simp add: get_mock_data_def)

lemma mock_has_data: "py_in ''data'' (get_mock_data z) = Inr True"
  by (simp add: get_mock_data_def)

text \<open>
  C5. Whenever the fetch fails (the transport raises, the status is an error status or the
  body does not parse), \<^verbatim>\<open>fetch_crypto_data\<close> returns a dataset whose \<^verbatim>\<open>data\<close> list holds
  exactly 3 records, named Bitcoin, Ethereum and Tether, with ranks 1, 2 and 3 in that order.
\<close>

theorem fallback_contents:
  assumes "request_fails r"
  shows "\<exists>es. py_getitem (fetch_crypto_data r z) ''data'' = Inr (JArr es) \<and> length es = 3
           \<and> map (\<lambda>e. py_getitem e ''name'') es
               = [Inr (JStr ''Bitcoin''), Inr (JStr ''Ethereum''), Inr (JStr ''Tether'')]
           \<and> map (\<lambda>e. py_getitem e ''cmc_rank'') es = [Inr (JInt 1), Inr (JInt 2), Inr (JInt 3)]"
  unfolding fetch_fails_mock [OF assms] by (simp add: get_mock_data_def)

theorem fallback_contents_witness:
  "\<exists>es. py_getitem (fetch_crypto_data (Response 503 None) (\<lambda>i. 0)) ''data'' = Inr (JArr es) \<and> length es = 3
           \<and> map (\<lambda>e. py_getitem e ''name'') es
               = [Inr (JStr ''Bitcoin''), Inr (JStr ''Ethereum''), Inr (JStr ''Tether'')]
           \<and> map (\<lambda>e. py_getitem e ''cmc_rank'') es = [Inr (JInt 1), Inr (JInt 2), Inr (JInt 3)]"
  using fallback_contents [of "Response 503 None" "\<lambda>i. 0"] by simp

text \<open>
  C6, as claimed: any two invocations of the fallback generator produce the same records.
  This fails: the price and the six percent changes of each record are random draws, so
  two invocations with different draws return different records.
\<close>

theorem mock_not_deterministic: "get_mock_data (\<lambda>i. 0) \<noteq> get_mock_data (\<lambda>i. 1)"
  by (simp add: get_mock_data_def np_random_normal_def)

text \<open>
  C6, amended. The fallback is deterministic in its literal fields only: every invocation
  returns 3 records with the same id, name, symbol, slug, rank, market capitalisation and
  24h volume, whatever the draws, while the price of each record is its baseline plus the
  scaled draw of that invocation.
\<close>

theorem fallback_fixed_fields:
  "map fixed_fields (mock_entries z) =
     [[Inr (JInt 1), Inr (JStr ''Bitcoin''), Inr (JStr ''BTC''), Inr (JStr ''bitcoin''), Inr (JInt 1),
       Inr (JInt 800000000000), Inr (JInt 25000000000)],
      [Inr (JInt 2), Inr (JStr ''Ethereum''), Inr (JStr ''ETH''), Inr (JStr ''ethereum''), Inr (JInt 2),
       Inr (JInt 400000000000), Inr (JInt 15000000000)],
      [Inr (JInt 3), Inr (JStr ''Tether''), Inr (JStr ''USDT''), Inr (JStr ''tether''), Inr (JInt 3),
       Inr (JInt 90000000000), Inr (JInt 50000000000)]]
   \<and> map fixed_fields (mock_entries z) = map fixed_fields (mock_entries z')
   \<and> map (\<lambda>e. json_path e [''quote'', ''USD'', ''price'']) (mock_entries z) =
       [Inr (JFloat (45000.50 + 1000 * z 0)), Inr (JFloat (3200.75 + 200 * z 7)),
        Inr (JFloat (1 + 0.01 * z 14))]"
  by (simp add: mock_entries_def get_mock_data_def fixed_fields_def fixed_paths_def np_random_normal_def)

theorem fallback_fixed_fields_witness:
  "map fixed_fields (mock_entries (\<lambda>i. 1)) = map fixed_fields (mock_entries (\<lambda>i. 0))
   \<and> map (\<lambda>e. json_path e [''quote'', ''USD'', ''price'']) (mock_entries (\<lambda>i. 1)) =
       [Inr (JFloat 46000.50), Inr (JFloat 3400.75), Inr (JFloat 1.01)]"
proof -
  have h: "map fixed_fields (mock_entries (\<lambda>i. 1)) = map fixed_fields (mock_entries (\<lambda>i. 0))"
    and p: "map (\<lambda>e. json_path e [''quote'', ''USD'', ''price'']) (mock_entries (\<lambda>i. 1)) =
       [Inr (JFloat (45000.50 + 1000 * 1)), Inr (JFloat (3200.75 + 200 * 1)), Inr (JFloat (1 + 0.01 * 1))]"
    using fallback_fixed_fields [of "\<lambda>i. 1" "\<lambda>i. 0"] by blast+
  have "(45000.50 + 1000 * 1 :: real) = 46000.50" "(3200.75 + 200 * 1 :: real) = 3400.75"
       "(1 + 0.01 * 1 :: real) = 1.01" by simp_all
  with h p show ?thesis by (simp only:)
qed

text \<open>
  C10, as claimed: \<^verbatim>\<open>fetch_crypto_data\<close> never returns a falsy value, so the branch printing
  ``Failed to collect data'' is unreachable. This fails: a request that succeeds with the
  body \<^verbatim>\<open>{}\<close> returns the empty dict, which is falsy, and the loop prints that line.
\<close>

theorem fetch_falsy_counterexample:
  "\<not> truthy (fetch_crypto_data (Response 200 (Some (JObj []))) (\<lambda>i. 0)) \<and>
   run_data_collection
       (\<lambda>i. \<lparr>response = Response 200 (Some (JObj [])), noise = (\<lambda>i. 0), clock = 0\<rparr>) 1 10 init_pipeline
     = Inr \<lparr>df = empty_frame, printed = [Starting 1, Iteration 1 1, FailedToCollect, Completed]\<rparr>"
  by (simp add: fetch_crypto_data_def run_data_collection_def collect_once_def say_def init_pipeline_def)

lemma collect_falsy:
  assumes "\<not> truthy (fetch_crypto_data (response w) (noise w))"
  shows "collect_once w i n s p =
     Inr ((if int i < int n - 1 then say (Sleeping s) else (\<lambda>q. q))
            (say FailedToCollect (say (Iteration (i + 1) n) p)))"
  using assms by (simp add: collect_once_def Let_def)

lemma collect_truthy:
  assumes "truthy (fetch_crypto_data (response w) (noise w))" "collect_once w i n s p = Inr p'"
  shows "FailedToCollect \<notin> set (drop (length (printed p)) (printed p'))"
  using assms by (auto simp: collect_once_def Let_def say_def split: sum.splits if_splits)

text \<open>
  C10, amended. When the request fails, \<^verbatim>\<open>fetch_crypto_data\<close> returns the fallback, a truthy
  dict with the key \<^verbatim>\<open>data\<close>. When the request succeeds it returns the parsed body as it is,
  whatever that is. The loop prints ``Failed to collect data'' exactly when the fetched
  value is falsy, which happens only for a request that succeeded.
\<close>

theorem fetch_result_cases:
  "(request_fails r \<longrightarrow> fetch_crypto_data r z = get_mock_data z \<and> truthy (fetch_crypto_data r z)
       \<and> py_in ''data'' (fetch_crypto_data r z) = Inr True)
   \<and> (\<not> request_fails r \<longrightarrow> (\<exists>status body. r = Response status (Some body) \<and> fetch_crypto_data r z = body))
   \<and> (\<not> truthy (fetch_crypto_data (response w) (noise w)) \<longrightarrow>
        \<not> request_fails (response w) \<and>
        collect_once w i n s p =
          Inr ((if int i < int n - 1 then say (Sleeping s) else (\<lambda>q. q))
                 (say FailedToCollect (say (Iteration (i + 1) n) p))))
   \<and> (truthy (fetch_crypto_data (response w) (noise w)) \<longrightarrow>
        (\<forall>p'. collect_once w i n s p = Inr p' \<longrightarrow>
           FailedToCollect \<notin> set (drop (length (printed p)) (printed p'))))"
proof (intro conjI impI allI)
  assume "request_fails r"
  then show "fetch_crypto_data r z = get_mock_data z" by (rule fetch_fails_mock)
  then show "truthy (fetch_crypto_data r z)" by (simp add: mock_truthy)
  show "py_in ''data'' (fetch_crypto_data r z) = Inr True"
    using \<open>fetch_crypto_data r z = get_mock_data z\<close> by (simp add: mock_has_data)
next
  assume "\<not> request_fails r"
  then show "\<exists>status body. r = Response status (Some body) \<and> fetch_crypto_data r z = body"
    by (cases r) (auto simp: fetch_crypto_data_def)
next
  assume f: "\<not> truthy (fetch_crypto_data (response w) (noise w))"
  show "\<not> request_fails (response w)"
    using f fetch_fails_mock [of "response w" "noise w"] mock_truthy [of "noise w"] by auto
  show "collect_once w i n s p =
          Inr ((if int i < int n - 1 then say (Sleeping s) else (\<lambda>q. q))
                 (say FailedToCollect (say (Iteration (i + 1) n) p)))"
    using f by (rule collect_falsy)
next
  fix p' assume "truthy (fetch_crypto_data (response w) (noise w))" "collect_once w i n s p = Inr p'"
  then show "FailedToCollect \<notin> set (drop (length (printed p)) (printed p'))" by (rule collect_truthy)
qed

theorem fetch_result_cases_witness:
  "truthy (fetch_crypto_data RequestFailed (\<lambda>i. 0))
   \<and> py_in ''data'' (fetch_crypto_data RequestFailed (\<lambda>i. 0)) = Inr True
   \<and> \<not> request_fails (Response 200 (Some JNull))
   \<and> collect_once \<lparr>response = Response 200 (Some JNull), noise = (\<lambda>i. 0), clock = 0\<rparr> 0 1 10 init_pipeline
       = Inr (say FailedToCollect (say (Iteration 1 1) init_pipeline))"
  using fetch_result_cases [of RequestFailed "\<lambda>i. 0"
      "\<lparr>response = Response 200 (Some JNull), noise = (\<lambda>i. 0), clock = 0\<rparr>" 0 1 10 init_pipeline]
  by (simp add: fetch_crypto_data_def)

section \<open>PersistenceAdapter and SummaryReporter: the guards\<close>

text \<open>
  C7. When the file to load is absent, \<^verbatim>\<open>load_from_csv\<close> reports the missing file (it prints
  that the file was not found, and raises nothing) and leaves the in-memory dataset as it
  was before the call.
\<close>

theorem load_missing_file:
  assumes "files filename = None"
  shows "\<exists>p'. load_from_csv lib filename files p = Inr p' \<and> df p' = df p
           \<and> printed p' = printed p @ [FileNotFound filename]"
  using assms by (simp add: load_from_csv_def say_def)

theorem load_missing_file_witness:
  "\<exists>p'. load_from_csv \<lparr>to_csv = (\<lambda>d. d), read_csv = Inr, to_datetime = Inr\<rparr> ''crypto_data.csv''
            Map.empty \<lparr>df = \<lparr>columns = [''name''], rows = [[CStr ''Bitcoin'']]\<rparr>, printed = []\<rparr> = Inr p'
         \<and> df p' = \<lparr>columns = [''name''], rows = [[CStr ''Bitcoin'']]\<rparr>
         \<and> printed p' = [FileNotFound ''crypto_data.csv'']"
  using load_missing_file [of Map.empty "''crypto_data.csv''" "\<lparr>to_csv = (\<lambda>d. d), read_csv = Inr, to_datetime = Inr\<rparr>"
      "\<lparr>df = \<lparr>columns = [''name''], rows = [[CStr ''Bitcoin'']]\<rparr>, printed = []\<rparr>"]
  by simp

text \<open>
  C8. On an empty dataset \<^verbatim>\<open>get_summary_stats\<close> returns the message ``No data available''
  as its result; it raises nothing.
\<close>

theorem summary_empty:
  assumes "is_empty d"
  shows "get_summary_stats fmt d = Inr (Message ''No data available'')"
  using assms by (simp add: get_summary_stats_def)

theorem summary_empty_witness:
  "is_empty empty_frame \<and> get_summary_stats (\<lambda>t. ''2025-01-01 00:00:00'') empty_frame = Inr (Message ''No data available'')"
  using summary_empty [of empty_frame "\<lambda>t. ''2025-01-01 00:00:00''"]
  by (simp add: is_empty_def empty_frame_def)

section \<open>Facts about tables\<close>

lemma row_get_absent: "c \<notin> set cs \<Longrightarrow> row_get cs r c = CNaN"
proof -
  assume "c \<notin> set cs"
  then have "c \<notin> fst ` set (zip cs r)" by (auto dest: set_zip_leftD)
  then have "map_of (zip cs r) c = None" by (simp add: map_of_eq_None_iff)
  then show ?thesis by (simp add: row_get_def)
qed

lemma row_get_map: "distinct cs \<Longrightarrow> c \<in> set cs \<Longrightarrow> row_get cs (map f cs) c = f c"
  by (simp add: row_get_def map_of_zip_map)

lemma row_get_nth:
  "distinct cs \<Longrightarrow> length r = length cs \<Longrightarrow> i < length cs \<Longrightarrow> row_get cs r (cs ! i) = r ! i"
  by (simp add: row_get_def map_of_zip_nth)


lemma row_get_reindex:
  assumes "distinct new"
  shows "row_get new (reindex old new r) c = (if c \<in> set new then row_get old r c else CNaN)"
  using assms by (simp add: reindex_def row_get_map row_get_absent)

lemma concat_columns:
  "columns (pd_concat a b) = columns a @ filter (\<lambda>c. c \<notin> set (columns a)) (columns b)"
  by (simp add: pd_concat_def Let_def)

lemma concat_distinct:
  "distinct (columns a) \<Longrightarrow> distinct (columns b) \<Longrightarrow> distinct (columns (pd_concat a b))"
  by (auto simp: concat_columns)

lemma concat_len: "len (pd_concat a b) = len a + len b"
  by (simp add: pd_concat_def Let_def len_def)

lemma concat_col_values:
  assumes "distinct (columns a)" "distinct (columns b)"
  shows "col_values (pd_concat a b) c = col_values a c @ col_values b c"
proof -
  let ?cols = "columns a @ filter (\<lambda>c. c \<notin> set (columns a)) (columns b)"
  have d: "distinct ?cols" using assms by auto
  have a: "row_get ?cols (reindex (columns a) ?cols r) c = row_get (columns a) r c" for r
    using d by (auto simp: row_get_reindex row_get_absent simp del: distinct_append)
  have b: "row_get ?cols (reindex (columns b) ?cols r) c = row_get (columns b) r c" for r
    using d by (auto simp: row_get_reindex row_get_absent simp del: distinct_append)
  show ?thesis
    by (simp add: col_values_def pd_concat_def Let_def a b)
qed

lemma concat_wf:
  assumes "distinct (columns a)" "distinct (columns b)"
  shows "wf_frame (pd_concat a b)"
  using assms by (auto simp: wf_frame_def pd_concat_def Let_def reindex_def list_all_iff)


lemma row_get_update:
  assumes "distinct cs" "length r = length cs"
  shows "row_get cs (map (\<lambda>(k, x). if k = c then v else x) (zip cs r)) c'
           = (if c' = c \<and> c \<in> set cs then v else row_get cs r c')"
proof (cases "c' \<in> set cs")
  case False
  then show ?thesis by (auto simp: row_get_absent)
next
  case True
  then obtain i where i: "i < length cs" "cs ! i = c'" by (auto simp: in_set_conv_nth)
  have l: "length (map (\<lambda>(k, x). if k = c then v else x) (zip cs r)) = length cs"
    using assms(2) by simp
  have "row_get cs (map (\<lambda>(k, x). if k = c then v else x) (zip cs r)) (cs ! i)
          = map (\<lambda>(k, x). if k = c then v else x) (zip cs r) ! i"
    using assms(1) l i(1) by (rule row_get_nth)
  also have "\<dots> = (if cs ! i = c then v else r ! i)" using i(1) assms(2) by simp
  finally show ?thesis using i assms row_get_nth [of cs r i] by auto
qed

lemma row_get_snoc:
  assumes "length r = length cs" "c \<notin> set cs"
  shows "row_get (cs @ [c]) (r @ [v]) c' = (if c' = c then v else row_get cs r c')"
  using assms by (auto simp: row_get_def map_add_def split: option.splits dest: map_of_SomeD set_zip_leftD)

lemma set_scalar_wf: "wf_frame d \<Longrightarrow> wf_frame (set_column_scalar d c v)"
  by (auto simp: wf_frame_def set_column_scalar_def list_all_iff)

lemma set_scalar_len: "len (set_column_scalar d c v) = len d"
  by (simp add: set_column_scalar_def len_def)

lemma set_scalar_columns:
  "columns (set_column_scalar d c v) = (if c \<in> set (columns d) then columns d else columns d @ [c])"
  by (simp add: set_column_scalar_def)

lemma set_scalar_col_values:
  assumes "wf_frame d"
  shows "col_values (set_column_scalar d c v) c' = (if c' = c then replicate (len d) v else col_values d c')"
proof (cases "c \<in> set (columns d)")
  case True
  have "row_get (columns d) (map (\<lambda>(k, x). if k = c then v else x) (zip (columns d) r)) c'
          = (if c' = c then v else row_get (columns d) r c')" if "r \<in> set (rows d)" for r
    using assms that True by (subst row_get_update) (auto simp: wf_frame_def list_all_iff)
  then show ?thesis using True
    by (auto simp: col_values_def set_column_scalar_def len_def map_replicate_const [symmetric]
             simp del: map_replicate_const)
next
  case False
  have "row_get (columns d @ [c]) (r @ [v]) c' = (if c' = c then v else row_get (columns d) r c')"
    if "r \<in> set (rows d)" for r
    using assms that False by (subst row_get_snoc) (auto simp: wf_frame_def list_all_iff)
  then show ?thesis using False
    by (auto simp: col_values_def set_column_scalar_def len_def map_replicate_const [symmetric]
             simp del: map_replicate_const)
qed

section \<open>RecordNormalizer\<close>

lemma add_keys_distinct: "distinct cs \<Longrightarrow> distinct (add_keys cs ks)"
  by (induction ks arbitrary: cs) auto

lemma fold_add_keys_distinct:
  "distinct cs \<Longrightarrow> distinct (fold (\<lambda>r cs. add_keys cs (map fst r)) recs cs)"
  by (induction recs arbitrary: cs) (auto simp: add_keys_distinct)

lemma frame_of_records_wf: "wf_frame (frame_of_records recs)"
  by (simp add: frame_of_records_def Let_def wf_frame_def list_all_iff fold_add_keys_distinct)

lemma frame_of_records_len: "len (frame_of_records recs) = length recs"
  by (simp add: frame_of_records_def Let_def len_def)

lemma empty_frame_wf: "wf_frame empty_frame"
  by (simp add: empty_frame_def wf_frame_def)

lemma json_normalize_list:
  assumes "list_all is_dict es"
  shows "\<exists>d. json_normalize (JArr es) = Inr d \<and> wf_frame d \<and> len d = length es"
proof (cases "es = []")
  case True
  then show ?thesis by (simp add: empty_frame_wf) (simp add: len_def empty_frame_def)
next
  case False
  then show ?thesis using assms by (simp add: frame_of_records_wf frame_of_records_len)
qed

lemma process_data_rows:
  assumes "map_of kvs ''data'' = Some (JArr es)" "list_all is_dict es"
  shows "\<exists>d. process_data now (JObj kvs) = Inr d \<and> wf_frame d \<and> len d = length es
           \<and> ''timestamp'' \<in> set (columns d)
           \<and> col_values d ''timestamp'' = replicate (length es) (CTime now)"
proof -
  from assms(1) have ne: "kvs \<noteq> []" by auto
  from json_normalize_list [OF assms(2)] obtain d0 where
    d0: "json_normalize (JArr es) = Inr d0" "wf_frame d0" "len d0 = length es" by blast
  have "process_data now (JObj kvs) = Inr (set_column_scalar d0 ''timestamp'' (CTime now))"
    using assms(1) ne d0(1) by (simp add: process_data_def)
  then show ?thesis
    using d0 by (auto simp: set_scalar_wf set_scalar_len set_scalar_columns set_scalar_col_values)
qed













section \<open>Accumulator\<close>




section \<open>The collection run\<close>

lemma proper_empty_frame: "proper empty_frame"
  by (simp add: proper_def wf_frame_def empty_frame_def)

lemma append_col_values:
  assumes "proper e" "proper b"
  shows "col_values (append_data e b) c = col_values e c @ col_values b c"
proof -
  have r: "rows d = []" if "is_empty d" "proper d" for d
    using that by (auto simp: is_empty_def proper_def)
  show ?thesis
  proof (cases "is_empty b")
    case True
    with assms r have "rows b = []" by blast
    then show ?thesis using True by (simp add: append_data_def col_values_def)
  next
    case False
    show ?thesis
    proof (cases "is_empty e")
      case True
      with assms r have "rows e = []" by blast
      then show ?thesis using True False by (simp add: append_data_def col_values_def)
    next
      case e: False
      then show ?thesis using False assms
        by (simp add: append_data_def concat_col_values proper_def wf_frame_def)
    qed
  qed
qed

lemma append_len:
  assumes "proper e" "proper b"
  shows "len (append_data e b) = len e + len b"
proof -
  have r: "len d = 0" if "is_empty d" "proper d" for d
    using that by (auto simp: is_empty_def proper_def len_def)
  show ?thesis using assms r [of e] r [of b] by (auto simp: append_data_def concat_len)
qed

lemma append_proper:
  assumes "proper e" "proper b"
  shows "proper (append_data e b)"
proof -
  have "proper (pd_concat e b)" if "\<not> is_empty e"
  proof -
    have "distinct (columns e)" "distinct (columns b)"
      using assms by (simp_all add: proper_def wf_frame_def)
    then have "wf_frame (pd_concat e b)" by (rule concat_wf)
    moreover have "columns (pd_concat e b) \<noteq> []" using that by (simp add: concat_columns is_empty_def)
    ultimately show ?thesis by (simp add: proper_def)
  qed
  then show ?thesis using assms by (auto simp: append_data_def)
qed

lemma collect_once_fetched:
  assumes f: "fetched_entries w es" and p: "proper (df p)"
  shows "\<exists>p'. collect_once w i n s p = Inr p' \<and> proper (df p')
           \<and> len (df p') = len (df p) + length es
           \<and> col_values (df p') ''timestamp''
               = col_values (df p) ''timestamp'' @ replicate (length es) (CTime (clock w))"
proof -
  from f obtain kvs where k: "fetch_crypto_data (response w) (noise w) = JObj kvs"
      "map_of kvs ''data'' = Some (JArr es)" "list_all is_dict es"
    by (auto simp: fetched_entries_def split: json.splits)
  from k(2) have t: "truthy (JObj kvs)" by auto
  from process_data_rows [OF k(2,3), of "clock w"] obtain d where
    d: "process_data (clock w) (JObj kvs) = Inr d" "wf_frame d" "len d = length es"
       "''timestamp'' \<in> set (columns d)"
       "col_values d ''timestamp'' = replicate (length es) (CTime (clock w))" by blast
  have pd: "proper d" using d(2,4) by (auto simp: proper_def)
  let ?p1 = "say (Iteration (i + 1) n) p"
  have p1: "df ?p1 = df p" by (simp add: say_def)
  obtain p' where p': "collect_once w i n s p = Inr p'" "df p' = append_data (df p) d"
    using k(1) t d(1) by (auto simp: collect_once_def Let_def say_def)
  show ?thesis
    using p' p pd d(3,5) by (auto simp: append_proper append_len append_col_values)
qed

lemma run_three:
  "run_data_collection world 3 s p =
     (case collect_once (world 0) 0 3 s (say (Starting 3) p) of
        Inl e \<Rightarrow> Inl e
      | Inr p1 \<Rightarrow>
          (case collect_once (world 1) 1 3 s p1 of
             Inl e \<Rightarrow> Inl e
           | Inr p2 \<Rightarrow>
               (case collect_once (world 2) 2 3 s p2 of
                  Inl e \<Rightarrow> Inl e
                | Inr p3 \<Rightarrow> Inr (say Completed p3))))"
proof -
  have "[0..<3] = [0, 1, 2]" by (simp add: upt_rec)
  then show ?thesis by (simp add: run_data_collection_def split: sum.splits)
qed

text \<open>
  C9. Three consecutive iterations of \<^verbatim>\<open>run_data_collection\<close>, each fetching 3 records, on
  a fresh pipeline: the run completes, the final dataset has exactly 9 records, and their
  timestamps are the first clock reading three times, then the second, then the third, so
  that they are in non-decreasing order when the clock does not go backwards between
  iterations.
\<close>

theorem three_iterations:
  assumes "fetched_entries (world 0) es0" "length es0 = 3"
    and "fetched_entries (world 1) es1" "length es1 = 3"
    and "fetched_entries (world 2) es2" "length es2 = 3"
    and "clock (world 0) \<le> clock (world 1)" "clock (world 1) \<le> clock (world 2)"
  shows "\<exists>p. run_data_collection world 3 s init_pipeline = Inr p \<and> len (df p) = 9
           \<and> timestamps (df p) =
               replicate 3 (clock (world 0)) @ replicate 3 (clock (world 1)) @ replicate 3 (clock (world 2))
           \<and> sorted (timestamps (df p))"
proof -
  let ?p0 = "say (Starting 3) init_pipeline"
  have p0: "proper (df ?p0)"
    by (simp add: say_def init_pipeline_def proper_empty_frame)
  have p0': "len (df ?p0) = 0" "col_values (df ?p0) ''timestamp'' = []"
    by (simp_all add: say_def init_pipeline_def len_def col_values_def empty_frame_def)
  from collect_once_fetched [OF assms(1) p0, of 0 3 s] obtain p1 where
    p1: "collect_once (world 0) 0 3 s ?p0 = Inr p1" "proper (df p1)" "len (df p1) = 3"
        "col_values (df p1) ''timestamp'' = replicate 3 (CTime (clock (world 0)))"
    using p0' assms(2) by auto
  from collect_once_fetched [OF assms(3) p1(2), of 1 3 s] obtain p2 where
    p2: "collect_once (world 1) 1 3 s p1 = Inr p2" "proper (df p2)" "len (df p2) = 6"
        "col_values (df p2) ''timestamp'' =
           replicate 3 (CTime (clock (world 0))) @ replicate 3 (CTime (clock (world 1)))"
    using p1(3,4) assms(4) by auto
  from collect_once_fetched [OF assms(5) p2(2), of 2 3 s] obtain p3 where
    p3: "collect_once (world 2) 2 3 s p2 = Inr p3" "proper (df p3)" "len (df p3) = 9"
        "col_values (df p3) ''timestamp'' =
           replicate 3 (CTime (clock (world 0))) @ replicate 3 (CTime (clock (world 1)))
             @ replicate 3 (CTime (clock (world 2)))"
    using p2(3,4) assms(6) by auto
  have r: "run_data_collection world 3 s init_pipeline = Inr (say Completed p3)"
    using p1(1) p2(1) p3(1) by (simp add: run_three)
  have ts: "timestamps (df p3) =
      replicate 3 (clock (world 0)) @ replicate 3 (clock (world 1)) @ replicate 3 (clock (world 2))"
    by (simp add: timestamps_def p3(4) List.map_filter_def numeral_3_eq_3)
  have "sorted (replicate 3 (clock (world 0)) @ replicate 3 (clock (world 1)) @ replicate 3 (clock (world 2)))"
    using assms(7,8) by (auto simp: sorted_append)
  with ts r p3(3) show ?thesis by (auto simp: say_def)
qed


theorem three_iterations_witness:
  "\<exists>p. run_data_collection demo_world 3 2 init_pipeline = Inr p \<and> len (df p) = 9
       \<and> timestamps (df p) = [0, 0, 0, 10, 10, 10, 20, 20, 20]
       \<and> sorted (timestamps (df p))"
proof -
  have f: "fetched_entries (demo_world 0) (mock_entries (\<lambda>k. 0))"
    "fetched_entries (demo_world 1) (mock_entries (\<lambda>k. 1))"
    "fetched_entries (demo_world 2) (mock_entries (\<lambda>k. 0))"
    by (simp_all add: fetched_entries_def demo_world_def fetch_crypto_data_def get_mock_data_def
        mock_entries_def)
  have l: "length (mock_entries z) = 3" for z
    by (simp add: mock_entries_def get_mock_data_def)
  have c: "clock (demo_world 0) \<le> clock (demo_world 1)" "clock (demo_world 1) \<le> clock (demo_world 2)"
    by (simp_all add: demo_world_def)
  have r: "replicate 3 (clock (demo_world 0)) @ replicate 3 (clock (demo_world 1))
             @ replicate 3 (clock (demo_world 2)) = [0, 0, 0, 10, 10, 10, 20, 20, 20]"
    by (simp add: demo_world_def numeral_3_eq_3)
  show ?thesis
    using three_iterations [OF f(1) l f(2) l f(3) l c, of 2] unfolding r .
qed

section \<open>TrendAggregator\<close>





















section \<open>PersistenceAdapter: the round trip\<close>









end
